theory Spec2Isabelle
  imports Main "HOL-Library.Sublist"
begin

section \<open>JavaScript values used by the bot\<close>

text \<open>
  A JavaScript string is modelled by the list of its units (\<open>string\<close>). An optional
  property (absent, \<open>undefined\<close> or \<open>null\<close>) is an \<open>option\<close>. The tests
  \<open>if (s)\<close> and \<open>s || d\<close> of the source use JavaScript truthiness: an absent or empty
  string is falsy, every object that is present is truthy.
\<close>

definition truthy :: "string option \<Rightarrow> bool" where
  "truthy s = (case s of None \<Rightarrow> False | Some t \<Rightarrow> t \<noteq> [])"

definition or_else :: "string option \<Rightarrow> string \<Rightarrow> string" where
  "or_else s d = (case s of None \<Rightarrow> d | Some t \<Rightarrow> if t = [] then d else t)"

text \<open>The truthiness of an optional object: present or not.\<close>

definition present :: "'a option \<Rightarrow> bool" where
  "present x = (case x of None \<Rightarrow> False | Some _ \<Rightarrow> True)"

section \<open>MessageCache.js\<close>

subsection \<open>Transport messages\<close>

record msg_key =
  key_id :: string
  remoteJid :: string
  participant :: "string option"
  fromMe :: bool

text \<open>
  One record type serves \<open>imageMessage\<close>, \<open>videoMessage\<close>, \<open>audioMessage\<close> and
  \<open>documentMessage\<close>: the source reads only \<open>caption\<close>, \<open>title\<close> and the
  truthiness of \<open>viewOnce\<close> from them.
\<close>

record media_message =
  caption :: "string option"
  title :: "string option"
  viewOnce :: bool

record extended_text_message =
  ext_text :: "string option"

record message_content =
  conversation :: "string option"
  extendedTextMessage :: "extended_text_message option"
  imageMessage :: "media_message option"
  videoMessage :: "media_message option"
  audioMessage :: "media_message option"
  documentMessage :: "media_message option"
  stickerMessage :: "unit option"
  viewOnceMessage :: "unit option"

record wa_message =
  key :: msg_key
  pushName :: "string option"
  messageTimestamp :: "nat option"
  message :: "message_content option"

subsection \<open>Helper methods\<close>

definition detectMessageType :: "wa_message \<Rightarrow> string" where
  "detectMessageType msg =
     (case message msg of
        None \<Rightarrow> ''unknown''
      | Some m \<Rightarrow>
          if present (imageMessage m) then ''image''
          else if present (videoMessage m) then ''video''
          else if present (audioMessage m) then ''audio''
          else if present (documentMessage m) then ''document''
          else if present (stickerMessage m) then ''sticker''
          else if truthy (conversation m) \<or> present (extendedTextMessage m) then ''text''
          else ''unknown'')"

definition media_viewOnce :: "media_message option \<Rightarrow> bool" where
  "media_viewOnce mm = (case mm of None \<Rightarrow> False | Some x \<Rightarrow> viewOnce x)"

definition checkViewOnce :: "wa_message \<Rightarrow> bool" where
  "checkViewOnce msg =
     (case message msg of
        None \<Rightarrow> False
      | Some m \<Rightarrow>
          media_viewOnce (imageMessage m) \<or> media_viewOnce (videoMessage m) \<or>
          media_viewOnce (audioMessage m) \<or> present (viewOnceMessage m))"

text \<open>\<open>x?.caption\<close>: the caption of an optional media part.\<close>

definition caption_of :: "media_message option \<Rightarrow> string option" where
  "caption_of mm = (case mm of None \<Rightarrow> None | Some x \<Rightarrow> caption x)"

definition text_of :: "extended_text_message option \<Rightarrow> string option" where
  "text_of e = (case e of None \<Rightarrow> None | Some x \<Rightarrow> ext_text x)"

definition extractText :: "wa_message \<Rightarrow> string" where
  "extractText msg =
     (case message msg of
        None \<Rightarrow> []
      | Some m \<Rightarrow>
          if truthy (conversation m) then the (conversation m)
          else if truthy (text_of (extendedTextMessage m)) then the (text_of (extendedTextMessage m))
          else if truthy (caption_of (imageMessage m)) then the (caption_of (imageMessage m))
          else if truthy (caption_of (videoMessage m)) then the (caption_of (videoMessage m))
          else if truthy (caption_of (documentMessage m)) then the (caption_of (documentMessage m))
          else [])"

subsection \<open>The store\<close>

text \<open>
  A row of the table \<open>messages\<close>. The column \<open>id\<close> is declared
  \<open>TEXT PRIMARY KEY\<close> and every write is \<open>INSERT OR REPLACE\<close>, so the table holds
  at most one row for each id: it is a map from the id to the row. \<open>messageData\<close>
  holds \<open>JSON.stringify(msg)\<close>, which \<open>getMessage\<close> parses back; the model keeps the
  message itself.
\<close>

record row =
  row_id :: string
  row_chatId :: string
  row_senderId :: string
  row_senderName :: string
  row_timestamp :: nat
  row_messageType :: string
  row_textContent :: string
  row_isViewOnce :: nat
  row_messageData :: wa_message

record cache_stats =
  totalMessages :: nat
  deletedRecovered :: nat
  lastCleanup :: nat

record message_cache =
  db :: "string \<rightharpoonup> row"
  initialized :: bool
  stats :: cache_stats

text \<open>What \<open>addMessage\<close> resolves to on success.\<close>

record added =
  a_id :: string
  a_chatId :: string
  a_senderId :: string
  a_senderName :: string
  a_timestamp :: nat
  a_messageType :: string
  a_textContent :: string
  a_isViewOnce :: bool

text \<open>What \<open>getMessage\<close> resolves to when a row is found.\<close>

record cached_message =
  c_id :: string
  c_chatId :: string
  c_senderId :: string
  c_senderName :: string
  c_timestamp :: nat
  c_messageType :: string
  c_textContent :: string
  c_isViewOnce :: bool
  c_message :: "wa_message option"

text \<open>
  \<open>msg.messageTimestamp * 1000 || Date.now()\<close>: an absent timestamp gives \<open>NaN\<close> and
  a zero one gives 0, both falsy, so the clock is used.
\<close>

definition timestamp_of :: "wa_message \<Rightarrow> nat \<Rightarrow> nat" where
  "timestamp_of msg now =
     (case messageTimestamp msg of
        None \<Rightarrow> now
      | Some t \<Rightarrow> if t * 1000 = 0 then now else t * 1000)"

definition make_row :: "wa_message \<Rightarrow> nat \<Rightarrow> row" where
  "make_row msg now =
     \<lparr> row_id = key_id (key msg),
       row_chatId = remoteJid (key msg),
       row_senderId = or_else (participant (key msg)) (remoteJid (key msg)),
       row_senderName = or_else (pushName msg) ''Unknown'',
       row_timestamp = timestamp_of msg now,
       row_messageType = detectMessageType msg,
       row_textContent = extractText msg,
       row_isViewOnce = (if checkViewOnce msg then 1 else 0),
       row_messageData = msg \<rparr>"

text \<open>
  \<open>addMessage\<close>. \<open>now\<close> is the reading of \<open>Date.now()\<close>; \<open>dberr\<close> says whether
  the database engine reports an error for the insert (the callback's \<open>err\<close>), in which
  case the promise resolves to \<open>null\<close> and the counter is left alone. The result is the
  cache after the call and the value the call resolves to.
\<close>

definition addMessage :: "message_cache \<Rightarrow> nat \<Rightarrow> bool \<Rightarrow> wa_message \<Rightarrow> message_cache \<times> added option" where
  "addMessage c now dberr msg =
     (if \<not> initialized c then (c, None)
      else if \<not> present (message msg) then (c, None)
      else if dberr then (c, None)
      else
        let r = make_row msg now in
        (c\<lparr> db := (db c)(row_id r \<mapsto> r),
            stats := (stats c)\<lparr> totalMessages := totalMessages (stats c) + 1 \<rparr> \<rparr>,
         Some \<lparr> a_id = row_id r, a_chatId = row_chatId r, a_senderId = row_senderId r,
                a_senderName = row_senderName r, a_timestamp = row_timestamp r,
                a_messageType = row_messageType r, a_textContent = row_textContent r,
                a_isViewOnce = (row_isViewOnce r = 1) \<rparr>))"

definition of_row :: "row \<Rightarrow> cached_message" where
  "of_row r =
     \<lparr> c_id = row_id r, c_chatId = row_chatId r, c_senderId = row_senderId r,
       c_senderName = row_senderName r, c_timestamp = row_timestamp r,
       c_messageType = row_messageType r, c_textContent = row_textContent r,
       c_isViewOnce = (row_isViewOnce r = 1), c_message = Some (row_messageData r) \<rparr>"

text \<open>
  \<open>getMessage(messageId, chatId = null)\<close>: the query is \<open>WHERE id = ?\<close>, narrowed by
  \<open>AND chatId = ?\<close> only when \<open>chatId\<close> is truthy.
\<close>

definition getMessage :: "message_cache \<Rightarrow> string \<Rightarrow> string option \<Rightarrow> cached_message option" where
  "getMessage c messageId chatId =
     (if \<not> initialized c then None
      else case db c messageId of
        None \<Rightarrow> None
      | Some r \<Rightarrow>
          if truthy chatId then (if row_chatId r = the chatId then Some (of_row r) else None)
          else Some (of_row r))"

definition deleteMessage :: "message_cache \<Rightarrow> string \<Rightarrow> message_cache \<times> bool" where
  "deleteMessage c messageId =
     (if \<not> initialized c then (c, False)
      else (c\<lparr> db := (db c)(messageId := None) \<rparr>, True))"

text \<open>
  The constructor leaves \<open>initialized\<close> false; \<open>initDatabase\<close> opens the database file
  (whose rows, if any, survive from earlier runs) and sets it once the table exists.
\<close>

definition MessageCache_new :: "(string \<rightharpoonup> row) \<Rightarrow> nat \<Rightarrow> message_cache" where
  "MessageCache_new disk now =
     \<lparr> db = disk, initialized = False,
       stats = \<lparr> totalMessages = 0, deletedRecovered = 0, lastCleanup = now \<rparr> \<rparr>"

definition initDatabase :: "message_cache \<Rightarrow> bool \<Rightarrow> message_cache" where
  "initDatabase c dberr = (if dberr then c else c\<lparr> initialized := True \<rparr>)"

section \<open>Chatbot.js\<close>

subsection \<open>Conversation history\<close>

text \<open>
  What a provider hands back in the field \<open>response\<close>: a text, the whole result of another
  provider (\<open>meganBase\<close> puts \<open>await this.meganFast(prompt)\<close> there), or the opaque
  \<open>response.data\<close> of the custom endpoint.
\<close>

datatype body = Text string | Nested reply | Data
and reply = Reply (r_success: bool) (r_response: body) (r_error: "string option") (r_provider: "string option")

record history_entry =
  role :: string
  entry_message :: body
  timestamp :: nat

record user_context =
  lastActive :: nat
  lastQuery :: "string option"
  lastResponse :: "body option"
  providerUsed :: "string option"

record chatbot =
  contexts :: "string \<rightharpoonup> user_context"
  history :: "string \<rightharpoonup> history_entry list"
  maxHistory :: nat

definition Chatbot_new :: chatbot where
  "Chatbot_new = \<lparr> contexts = Map.empty, history = Map.empty, maxHistory = 10 \<rparr>"

text \<open>
  \<open>xs.slice(-n)\<close>: the last \<open>n\<close> elements, and the whole array when \<open>n\<close> is 0
  (\<open>-0\<close> is the start index 0).
\<close>

definition slice_last :: "nat \<Rightarrow> 'a list \<Rightarrow> 'a list" where
  "slice_last n xs = (if n = 0 then xs else drop (length xs - n) xs)"

definition getHistory :: "chatbot \<Rightarrow> string \<Rightarrow> history_entry list" where
  "getHistory c userId = (case history c userId of None \<Rightarrow> [] | Some h \<Rightarrow> h)"

text \<open>
  \<open>addToHistory\<close>: \<open>push\<close> extends the stored array in place; when it has grown beyond
  \<open>maxHistory\<close> the map entry is replaced by the slice. \<open>now\<close> is \<open>Date.now()\<close>.
\<close>

definition addToHistory :: "chatbot \<Rightarrow> string \<Rightarrow> string \<Rightarrow> body \<Rightarrow> nat \<Rightarrow> chatbot" where
  "addToHistory c userId r m now =
     (let h = getHistory c userId @ [\<lparr> role = r, entry_message = m, timestamp = now \<rparr>]
      in c\<lparr> history := (history c)(userId \<mapsto>
              (if length h > maxHistory c then slice_last (maxHistory c) h else h)) \<rparr>)"

definition getUserContext :: "chatbot \<Rightarrow> string \<Rightarrow> nat \<Rightarrow> chatbot \<times> user_context" where
  "getUserContext c userId now =
     (case contexts c userId of
        Some ctx \<Rightarrow> (c, ctx)
      | None \<Rightarrow>
          (let ctx = \<lparr> lastActive = now, lastQuery = None, lastResponse = None, providerUsed = None \<rparr>
           in (c\<lparr> contexts := (contexts c)(userId \<mapsto> ctx) \<rparr>, ctx)))"

definition updateUserContext ::
  "chatbot \<Rightarrow> string \<Rightarrow> string \<Rightarrow> body \<Rightarrow> string option \<Rightarrow> nat \<Rightarrow> chatbot" where
  "updateUserContext c userId q resp prov now =
     (let (c1, ctx) = getUserContext c userId now
      in c1\<lparr> contexts := (contexts c1)(userId \<mapsto>
              ctx\<lparr> lastQuery := Some q, lastResponse := Some resp, providerUsed := prov,
                   lastActive := now \<rparr>) \<rparr>)"

definition clearHistory :: "chatbot \<Rightarrow> string \<Rightarrow> chatbot" where
  "clearHistory c userId =
     c\<lparr> history := (history c)(userId := None), contexts := (contexts c)(userId := None) \<rparr>"

subsection \<open>Providers\<close>

text \<open>
  \<open>Math.floor(Math.random() * responses.length)\<close> is a number below the length of the
  list; the model takes the draw as a parameter and reduces it modulo the length, so that
  every natural number stands for a draw.
\<close>

definition fallbackResponse :: "nat \<Rightarrow> string \<Rightarrow> string" where
  \<open>fallbackResponse rnd prompt =
     (let responses =
        [''I understand you said: "'' @ take 50 prompt @ ''..."'',
         ''Processing your message...'',
         ''Thanks for your message! How can I assist you further?'',
         ''I heard: "'' @ take 30 prompt @ ''" - could you elaborate?'',
         ''That'' @ [CHR 0x27] @ ''s interesting! Tell me more.'',
         ''I'' @ [CHR 0x27] @ ''m here to help! What else would you like to know?'',
         ''Got it! Is there anything specific you'' @ [CHR 0x27] @ ''d like me to help with?'']
      in responses ! (rnd mod length responses))\<close>

text \<open>
  The outcome of one \<open>axios.post\<close>: it rejects (network failure, timeout, error status;
  the string is \<open>error.message\<close>), or it resolves and the handler reads
  \<open>response.data.data?.response\<close> (\<open>response.data.response\<close> for the custom endpoint).
\<close>

datatype http_reply = Threw string | Replied "string option"

text \<open>
  The world one call of \<open>chat\<close> runs in: the outcome of the request each handler would
  make, the environment variable of the custom endpoint, and the two random draws.
\<close>

record net =
  fast_reply :: http_reply
  base_reply :: http_reply
  ultra_reply :: http_reply
  custom_endpoint :: "string option"
  custom_reply :: http_reply
  rnd_provider :: nat
  rnd_chat :: nat

text \<open>The glyph U+2728 (sparkles) of the source text, in UTF-8.\<close>

definition sparkles :: string where
  "sparkles = [CHR 0xE2, CHR 0x9C, CHR 0xA8]"

definition meganFast :: "net \<Rightarrow> string \<Rightarrow> reply" where
  "meganFast n prompt =
     (case fast_reply n of
        Threw e \<Rightarrow> Reply False (Text (fallbackResponse (rnd_provider n) prompt)) (Some e) None
      | Replied r \<Rightarrow>
          Reply True (Text (or_else r (fallbackResponse (rnd_provider n) prompt))) None
            (Some ''megan-fast''))"

definition meganBase :: "net \<Rightarrow> string \<Rightarrow> reply" where
  "meganBase n prompt =
     (case base_reply n of
        Threw e \<Rightarrow> meganFast n prompt
      | Replied r \<Rightarrow>
          Reply True (if truthy r then Text (the r) else Nested (meganFast n prompt)) None
            (Some ''megan-base''))"

definition meganUltra :: "net \<Rightarrow> string \<Rightarrow> reply" where
  "meganUltra n prompt =
     (case ultra_reply n of
        Threw e \<Rightarrow> meganBase n prompt
      | Replied r \<Rightarrow>
          Reply True (Text (sparkles @ '' '' @ or_else r ''Enhanced response generated.'')) None
            (Some ''megan-ultra''))"

definition geminiAI :: "net \<Rightarrow> string \<Rightarrow> reply" where
  "geminiAI n prompt = meganUltra n prompt"

definition openAI :: "net \<Rightarrow> string \<Rightarrow> reply" where
  "openAI n prompt = meganUltra n prompt"

definition customAI :: "net \<Rightarrow> string \<Rightarrow> reply" where
  "customAI n prompt =
     (if \<not> truthy (custom_endpoint n) then meganFast n prompt
      else case custom_reply n of
        Threw e \<Rightarrow> meganFast n prompt
      | Replied r \<Rightarrow>
          Reply True (if truthy r then Text (the r) else Data) None (Some ''custom''))"

text \<open>\<open>this.providers[provider] || this.providers['megan-fast']\<close>.\<close>

definition providers :: "string \<Rightarrow> (net \<Rightarrow> string \<Rightarrow> reply) option" where
  "providers p =
     (if p = ''megan-fast'' then Some meganFast
      else if p = ''megan-base'' then Some meganBase
      else if p = ''megan-ultra'' then Some meganUltra
      else if p = ''gemini'' then Some geminiAI
      else if p = ''openai'' then Some openAI
      else if p = ''custom'' then Some customAI
      else None)"

definition handler_for :: "string option \<Rightarrow> net \<Rightarrow> string \<Rightarrow> reply" where
  "handler_for p =
     (case p of
        None \<Rightarrow> meganFast
      | Some name \<Rightarrow> (case providers name of None \<Rightarrow> meganFast | Some h \<Rightarrow> h))"

subsection \<open>The main chat method\<close>

record user_settings =
  aiProvider :: "string option"
  chatbotEnabled :: "bool option"

record group_settings =
  chatbotInGroups :: "bool option"

record chat_options =
  opt_provider :: "string option"
  opt_isGroup :: bool
  opt_groupId :: "string option"

record chat_result =
  success :: bool
  response :: body
  error :: "string option"
  provider :: "string option"
  historyLength :: "nat option"

text \<open>\<open>a || b || c\<close> on optional strings.\<close>

definition first_truthy :: "string option list \<Rightarrow> string option" where
  "first_truthy xs = (case filter truthy xs of [] \<Rightarrow> None | x # _ \<Rightarrow> x)"

text \<open>
  \<open>chat\<close>. \<open>getUserSettings\<close> is the settings module (not part of these sources), which
  may throw; \<open>AI_PROVIDER\<close> is the configured default. Everything happens inside one
  \<open>try\<close>, whose \<open>catch\<close> answers with the \<open>error-fallback\<close> result.
\<close>

definition chat ::
  "chatbot \<Rightarrow> (string \<Rightarrow> string + user_settings) \<Rightarrow> string option \<Rightarrow> net \<Rightarrow> nat \<Rightarrow>
   string \<Rightarrow> string \<Rightarrow> chat_options \<Rightarrow> chatbot \<times> chat_result" where
  "chat c getUserSettings AI_PROVIDER n now prompt userId options =
     (case getUserSettings userId of
        Inl e \<Rightarrow>
          (c, \<lparr> success = False, response = Text (fallbackResponse (rnd_chat n) prompt),
                error = Some e, provider = Some ''error-fallback'', historyLength = None \<rparr>)
      | Inr userSettings \<Rightarrow>
          (let p = first_truthy [opt_provider options, aiProvider userSettings, AI_PROVIDER];
               c1 = fst (getUserContext c userId now);
               c2 = addToHistory c1 userId ''user'' (Text prompt) now;
               result = handler_for p n prompt
           in if r_success result then
                (let c3 = addToHistory c2 userId ''assistant'' (r_response result) now;
                     c4 = updateUserContext c3 userId prompt (r_response result) (r_provider result) now
                 in (c4, \<lparr> success = True, response = r_response result, error = r_error result,
                            provider = r_provider result,
                            historyLength = Some (length (getHistory c4 userId)) \<rparr>))
              else
                (c2, \<lparr> success = False, response = Text (fallbackResponse (rnd_chat n) prompt),
                       error = r_error result, provider = Some ''fallback'',
                       historyLength = None \<rparr>)))"

section \<open>Commandhandler.js\<close>

subsection \<open>String operations\<close>

text \<open>
  \<open>trim\<close> removes white space at both ends: the tab, the line feed, the vertical tab,
  the form feed, the carriage return and the space. White space beyond ASCII (the no-break
  space and the like) is not modelled; no statement below depends on where \<open>trim\<close>
  stops.
\<close>

definition is_whitespace :: "char \<Rightarrow> bool" where
  "is_whitespace c = ((of_char c :: nat) \<in> {9, 10, 11, 12, 13, 32})"

definition trim :: "string \<Rightarrow> string" where
  "trim s = rev (dropWhile is_whitespace (rev (dropWhile is_whitespace s)))"

text \<open>
  \<open>s.split(/ +/)\<close>: the pieces between maximal runs of spaces. The array is never empty;
  the empty string gives one empty piece.
\<close>

function split_spaces :: "string \<Rightarrow> string list" where
  "split_spaces [] = [[]]"
| "split_spaces (c # cs) =
     (if c = CHR '' '' then [] # split_spaces (dropWhile (\<lambda>x. x = CHR '' '') cs)
      else (case split_spaces cs of [] \<Rightarrow> [[c]] | w # ws \<Rightarrow> (c # w) # ws))"
  by pat_completeness auto
termination
  by (relation "measure length") (auto simp: le_imp_less_Suc length_dropWhile_le)

text \<open>\<open>toLowerCase\<close> on the letters A to Z; other units are left as they are.\<close>

definition lower_char :: "char \<Rightarrow> char" where
  "lower_char c =
     (case map_of (zip ''ABCDEFGHIJKLMNOPQRSTUVWXYZ'' ''abcdefghijklmnopqrstuvwxyz'') c of
        None \<Rightarrow> c
      | Some l \<Rightarrow> l)"

definition toLowerCase :: "string \<Rightarrow> string" where
  "toLowerCase s = map lower_char s"

subsection \<open>Registry and dispatch\<close>

record config =
  PREFIX :: string
  BOT_NAME :: string
  CHANNEL_LINK :: string
  AI_PROVIDER :: "string option"
  AUTO_PRESENCE :: "string option"

text \<open>
  The object handed to a command's \<open>execute\<close>. Its field \<open>bot\<close> is a reference to the
  bot, not a value: what a body does through it to the registry is part of the body's
  outcome, below.
\<close>

record invocation =
  inv_msg :: wa_message
  inv_from :: string
  inv_sender :: string
  inv_args :: "string list"
  inv_text :: string
  inv_isGroup :: bool
  inv_command :: string
  inv_config :: config

text \<open>
  What a body throws when it fails: \<open>null\<close> or \<open>undefined\<close> (also a promise rejected
  without a reason), or any other value, of which the \<open>catch\<close> reads the property
  \<open>message\<close> (absent on a thrown string, say).
\<close>

datatype thrown = ThrownNullish | Thrown "string option"

text \<open>
  The constructor stores the handler in \<open>bot.commandHandler\<close>, and the invocation carries
  \<open>bot\<close>, so a body can reach \<open>this.commands\<close>: it can delete an entry, clear the
  map (as \<open>reloadCommands\<close> does first) or set an entry.
\<close>

datatype 'c registry_op = DeleteCommand string | ClearCommands | SetCommand string 'c

text \<open>
  A registry entry. A command body is an external unit; for an invocation it gives what it
  throws (\<open>Inl\<close>) or the result text it returns, possibly none (\<open>Inr\<close>), and the edits
  it has made to the registry by then, in order.
\<close>

datatype command = Command
  (cmd_name: string)
  (description: string)
  (usage: string)
  (category: string)
  (categoryName: string)
  (execute: "invocation \<Rightarrow> (thrown + string option) \<times> command registry_op list")

fun apply_op :: "(string \<rightharpoonup> command) \<Rightarrow> command registry_op \<Rightarrow> (string \<rightharpoonup> command)" where
  "apply_op m (DeleteCommand name) = m(name := None)"
| "apply_op m ClearCommands = Map.empty"
| "apply_op m (SetCommand name c) = m(name \<mapsto> c)"

record command_handler =
  handler_config :: config
  commands :: "string \<rightharpoonup> command"

record command_result =
  cr_success :: bool
  cr_message :: string
  cr_command :: "string option"

datatype js_error = TypeError string

text \<open>The glyphs U+274C (cross mark) and U+2705 (check mark) of the source texts, in UTF-8.\<close>

definition cross_mark :: string where
  "cross_mark = [CHR 0xE2, CHR 0x9D, CHR 0x8C]"

definition check_mark :: string where
  "check_mark = [CHR 0xE2, CHR 0x9C, CHR 0x85]"

text \<open>
  The two constants of \<open>handleCommand\<close>. \<open>commandName\<close> is the piece before the first
  run of spaces of the trimmed text behind the prefix, in lower case; reading \<open>[0]\<close> of
  an empty array would give \<open>undefined\<close> (\<open>None\<close>). \<open>args\<close> is cut from the text
  behind the prefix and the name.
\<close>

definition commandName :: "config \<Rightarrow> string \<Rightarrow> string option" where
  "commandName cfg txt =
     (case split_spaces (trim (drop (length (PREFIX cfg)) txt)) of
        [] \<Rightarrow> None
      | tok # _ \<Rightarrow> Some (toLowerCase tok))"

definition command_args :: "config \<Rightarrow> string \<Rightarrow> string \<Rightarrow> string list" where
  "command_args cfg txt name = split_spaces (trim (drop (length (PREFIX cfg) + length name) txt))"

text \<open>\<open>${error.message}\<close> in the template of the \<open>catch\<close>: an absent message prints as \<open>undefined\<close>.\<close>

definition message_text :: "string option \<Rightarrow> string" where
  "message_text m = (case m of None \<Rightarrow> ''undefined'' | Some t \<Rightarrow> t)"

text \<open>
  \<open>handleCommand\<close>. The call either rejects (\<open>Inl\<close>, with the error) or resolves to a
  result (\<open>Inr\<close>); both carry the handler as the call leaves it, that is, with the edits
  of the body. \<open>toLowerCase\<close> on \<open>undefined\<close> would be a \<open>TypeError\<close> outside the
  \<open>try\<close>. Inside the \<open>catch\<close>, reading \<open>error.message\<close> of a thrown \<open>null\<close> or
  \<open>undefined\<close> is a \<open>TypeError\<close> that nothing catches.
\<close>

definition handleCommand ::
  "command_handler \<Rightarrow> wa_message \<Rightarrow> string \<Rightarrow> string \<Rightarrow> string \<Rightarrow> bool \<Rightarrow>
   (js_error \<times> command_handler) + (command_handler \<times> command_result)" where
  "handleCommand h msg txt from_jid sender isGroup =
     (case commandName (handler_config h) txt of
        None \<Rightarrow> Inl (TypeError ''Cannot read properties of undefined (reading toLowerCase)'', h)
      | Some name \<Rightarrow>
          (case commands h name of
             None \<Rightarrow>
               Inr (h, \<lparr> cr_success = False,
                         cr_message = cross_mark @ '' Unknown command. Type '' @
                           PREFIX (handler_config h) @ ''menu for available commands.'',
                         cr_command = None \<rparr>)
           | Some cmd \<Rightarrow>
               (let ran = execute cmd \<lparr> inv_msg = msg, inv_from = from_jid, inv_sender = sender,
                                        inv_args = command_args (handler_config h) txt name,
                                        inv_text = txt, inv_isGroup = isGroup,
                                        inv_command = name, inv_config = handler_config h \<rparr>;
                    h' = h\<lparr> commands := foldl apply_op (commands h) (snd ran) \<rparr>
                in case fst ran of
                     Inr result \<Rightarrow>
                       Inr (h', \<lparr> cr_success = True,
                                  cr_message = or_else result (check_mark @ '' Command executed.''),
                                  cr_command = Some name \<rparr>)
                   | Inl ThrownNullish \<Rightarrow>
                       Inl (TypeError ''Cannot read properties of null (reading message)'', h')
                   | Inl (Thrown m) \<Rightarrow>
                       Inr (h', \<lparr> cr_success = False,
                                  cr_message = cross_mark @ '' Error: '' @ message_text m,
                                  cr_command = None \<rparr>))))"

section \<open>megan.js\<close>

subsection \<open>Connection lifecycle\<close>

datatype connection_state = Disconnected | Connecting | Connected

text \<open>
  A \<open>connection.update\<close> event: \<open>connection\<close> (\<open>'open'\<close>, \<open>'connecting'\<close>,
  \<open>'close'\<close> or absent) and \<open>lastDisconnect?.error?.output?.statusCode\<close>.
\<close>

datatype connection = ConnOpen | ConnConnecting | ConnClose

record connection_update =
  connection :: "connection option"
  statusCode :: "int option"

text \<open>
  What the handlers ask of the runtime: a timer (\<open>setTimeout\<close>, with the delay in
  milliseconds and what runs when it fires) or the end of the process (\<open>process.exit\<close>).
\<close>

datatype task = Connect | SendPresenceUpdate | SendStartupNotification

datatype effect = SetTimeout task nat | ProcessExit nat

record bot =
  connectionState :: connection_state
  isConnected :: bool
  reconnectAttempts :: nat
  maxReconnectAttempts :: nat
  stats_errors :: nat
  stats_reconnects :: nat

definition MeganBot_new :: bot where
  "MeganBot_new =
     \<lparr> connectionState = Disconnected, isConnected = False, reconnectAttempts = 0,
       maxReconnectAttempts = 10, stats_errors = 0, stats_reconnects = 0 \<rparr>"

definition handleConnectionUpdate :: "config \<Rightarrow> bot \<Rightarrow> connection_update \<Rightarrow> bot \<times> effect list" where
  "handleConnectionUpdate cfg b update =
     (if connection update = Some ConnOpen then
        (b\<lparr> connectionState := Connected, isConnected := True, reconnectAttempts := 0 \<rparr>,
         (if truthy (AUTO_PRESENCE cfg) then [SetTimeout SendPresenceUpdate 2000] else []) @
         [SetTimeout SendStartupNotification 3000])
      else if connection update = Some ConnClose then
        (let b1 = b\<lparr> connectionState := Disconnected, isConnected := False \<rparr>;
             shouldReconnect = (statusCode update \<noteq> Some 401)
         in if shouldReconnect \<and> reconnectAttempts b1 < maxReconnectAttempts b1 then
              (let b2 = b1\<lparr> reconnectAttempts := reconnectAttempts b1 + 1 \<rparr>;
                   delay = min (1000 * 2 ^ reconnectAttempts b2) 30000
               in (b2\<lparr> stats_reconnects := stats_reconnects b2 + 1 \<rparr>, [SetTimeout Connect delay]))
            else if \<not> shouldReconnect then (b1, [ProcessExit 1])
            else (b1, []))
      else (b, []))"

text \<open>
  \<open>connect\<close>, as far as the bot's own state goes. The world decides whether the session
  file exists and whether building the socket throws.
\<close>

datatype connect_env = NoSession | SocketFails | SocketCreated

definition connect :: "bot \<Rightarrow> connect_env \<Rightarrow> (bot \<times> effect list) \<times> bool" where
  "connect b env =
     (let b1 = b\<lparr> connectionState := Connecting \<rparr>
      in case env of
           NoSession \<Rightarrow> ((b1, [ProcessExit 1]), False)
         | SocketFails \<Rightarrow> ((b1\<lparr> stats_errors := stats_errors b1 + 1 \<rparr>, []), False)
         | SocketCreated \<Rightarrow> ((b1, []), True))"

text \<open>
  A run of the lifecycle: connection updates from the transport and reconnect timers that
  fire, handled one after the other until the process exits. The trace holds, for each
  event handled, the state it leaves and the effects it asks for.
\<close>

datatype event = ConnectionUpdate connection_update | ConnectTimer connect_env

definition handle_event :: "config \<Rightarrow> bot \<Rightarrow> event \<Rightarrow> bot \<times> effect list" where
  "handle_event cfg b e =
     (case e of
        ConnectionUpdate u \<Rightarrow> handleConnectionUpdate cfg b u
      | ConnectTimer env \<Rightarrow> fst (connect b env))"

fun is_exit :: "effect \<Rightarrow> bool" where
  "is_exit (ProcessExit _) = True"
| "is_exit (SetTimeout _ _) = False"

fun run :: "config \<Rightarrow> bot \<Rightarrow> event list \<Rightarrow> (bot \<times> effect list) list" where
  "run cfg b [] = []"
| "run cfg b (e # es) =
     (let r = handle_event cfg b e
      in r # (if list_ex is_exit (snd r) then [] else run cfg (fst r) es))"

subsection \<open>Sending\<close>

record content =
  content_text :: "string option"
  content_footer :: "string option"

text \<open>\<open>s.includes(sub)\<close>: \<open>sub\<close> occurs in \<open>s\<close> as a contiguous run.\<close>

fun str_includes :: "string \<Rightarrow> string \<Rightarrow> bool" where
  "str_includes [] sub = (sub = [])"
| "str_includes (c # cs) sub = (prefix sub (c # cs) \<or> str_includes cs sub)"

text \<open>The line feed, and the glyphs U+1F4E2 (loudspeaker) and U+1F4AC (speech balloon) in UTF-8.\<close>

definition newline :: string where
  "newline = [CHR 0x0A]"

definition loudspeaker :: string where
  "loudspeaker = [CHR 0xF0, CHR 0x9F, CHR 0x93, CHR 0xA2]"

definition speech_balloon :: string where
  "speech_balloon = [CHR 0xF0, CHR 0x9F, CHR 0x92, CHR 0xAC]"

text \<open>The block \<open>// Add footer to text messages\<close> of \<open>sendMessage\<close>.\<close>

definition add_footer :: "config \<Rightarrow> content \<Rightarrow> content" where
  "add_footer cfg c =
     (if truthy (content_text c) \<and> \<not> str_includes (the (content_text c)) (CHANNEL_LINK cfg) then
        c\<lparr> content_text := Some (the (content_text c) @
             newline @ newline @ loudspeaker @ '' *'' @ BOT_NAME cfg @ ''*'' @ newline @
             CHANNEL_LINK cfg) \<rparr>
      else c)"

text \<open>
  \<open>sendMessage\<close>: the content, after the footer block, goes to the transport
  (\<open>sock.sendMessage\<close>, a parameter), whose result is returned and whose exception is
  thrown on (\<open>Inl\<close>). The second component is the content the transport received.
\<close>

definition sendMessage ::
  "config \<Rightarrow> (string \<Rightarrow> content \<Rightarrow> string + 'r) \<Rightarrow> string \<Rightarrow> content \<Rightarrow> (string + 'r) \<times> content" where
  "sendMessage cfg sock to c = (let c' = add_footer cfg c in (sock to c', c'))"

subsection \<open>Routing of incoming messages\<close>

definition extractMessageText :: "wa_message \<Rightarrow> string" where
  "extractMessageText msg =
     (case message msg of
        None \<Rightarrow> []
      | Some m \<Rightarrow>
          if truthy (conversation m) then the (conversation m)
          else if truthy (text_of (extendedTextMessage m)) then the (text_of (extendedTextMessage m))
          else if truthy (caption_of (imageMessage m)) then the (caption_of (imageMessage m))
          else if truthy (caption_of (videoMessage m)) then the (caption_of (videoMessage m))
          else if truthy (case documentMessage m of None \<Rightarrow> None | Some d \<Rightarrow> title d)
            then the (case documentMessage m of None \<Rightarrow> None | Some d \<Rightarrow> title d)
          else [])"

definition shouldRespondToChatbot :: "config \<Rightarrow> wa_message \<Rightarrow> bool" where
  "shouldRespondToChatbot cfg msg =
     (if fromMe (key msg) then False
      else if extractMessageText msg = [] then False
      else if prefix (PREFIX cfg) (extractMessageText msg) then False
      else True)"

text \<open>
  The branch \<open>handleMessagesUpsert\<close> takes for one message of a \<open>notify\<close> batch, once
  the message is cached: the command path, the chatbot path, or neither.
\<close>

datatype route = ToCommand | ToChatbot | NoRoute

definition message_route :: "config \<Rightarrow> wa_message \<Rightarrow> route" where
  "message_route cfg msg =
     (let txt = extractMessageText msg
      in if txt \<noteq> [] \<and> prefix (PREFIX cfg) txt then ToCommand
         else if \<not> fromMe (key msg) \<and> shouldRespondToChatbot cfg msg then ToChatbot
         else NoRoute)"

subsection \<open>The chatbot path\<close>

text \<open>\<open>s.endsWith(suf)\<close>.\<close>

definition ends_with :: "string \<Rightarrow> string \<Rightarrow> bool" where
  "ends_with s suf = (length suf \<le> length s \<and> drop (length s - length suf) s = suf)"

text \<open>A response inside a template literal: a text as it is, an object as \<open>[object Object]\<close>.\<close>

definition body_to_string :: "body \<Rightarrow> string" where
  "body_to_string b = (case b of Text t \<Rightarrow> t | Nested r \<Rightarrow> ''[object Object]'' | Data \<Rightarrow> ''[object Object]'')"

text \<open>
  \<open>handleChatbot\<close>. The result is the chatbot after the call and the messages handed to
  the transport, each with its recipient. The settings module may throw; so may the
  transport, after it has received the message; the \<open>catch\<close> of \<open>handleChatbot\<close> only
  writes a log line.
\<close>

definition handleChatbot ::
  "config \<Rightarrow> (string \<Rightarrow> string + user_settings) \<Rightarrow> (string \<Rightarrow> string + group_settings) \<Rightarrow>
   (string \<Rightarrow> content \<Rightarrow> string + 'r) \<Rightarrow> chatbot \<Rightarrow> net \<Rightarrow> nat \<Rightarrow> wa_message \<Rightarrow> string \<Rightarrow>
   chatbot \<times> (string \<times> content) list" where
  "handleChatbot cfg getUserSettings getGroupSettings sock cb n now msg txt =
     (if txt = [] \<or> trim txt = [] then (cb, [])
      else
        let from_jid = remoteJid (key msg);
            sender = or_else (participant (key msg)) from_jid;
            isGroup = ends_with from_jid ''@g.us''
        in case getUserSettings sender of
             Inl e \<Rightarrow> (cb, [])
           | Inr userSettings \<Rightarrow>
               (case (if isGroup then getGroupSettings from_jid
                      else Inr \<lparr> chatbotInGroups = None \<rparr>) of
                  Inl e \<Rightarrow> (cb, [])
                | Inr groupSettings \<Rightarrow>
                    (let enabled =
                       (if isGroup then chatbotInGroups groupSettings \<noteq> Some False \<and>
                                        chatbotEnabled userSettings \<noteq> Some False
                        else chatbotEnabled userSettings \<noteq> Some False)
                     in if \<not> enabled then (cb, [])
                        else
                          let r = chat cb getUserSettings (AI_PROVIDER cfg) n now txt sender
                                    \<lparr> opt_provider = None, opt_isGroup = isGroup,
                                      opt_groupId = (if isGroup then Some from_jid else None) \<rparr>
                          in if success (snd r) then
                               (fst r,
                                [(from_jid,
                                  snd (sendMessage cfg sock from_jid
                                    \<lparr> content_text = Some (body_to_string (response (snd r)) @
                                        newline @ newline @ speech_balloon @ '' *AI Assistant*'' @
                                        newline @ CHANNEL_LINK cfg),
                                      content_footer = Some (BOT_NAME cfg) \<rparr>))])
                             else (fst r, []))))"


section \<open>The statements to be compared with the code\<close>

text \<open>
  The text derivation in the order the specification gives it: the conversation text, or
  the caption of media, or the quoted/extended-text body, first match in that order, and
  the empty string if none applies.
\<close>

definition spec_extracted_text :: "wa_message \<Rightarrow> string" where
  "spec_extracted_text msg =
     (case message msg of
        None \<Rightarrow> []
      | Some m \<Rightarrow>
          if truthy (conversation m) then the (conversation m)
          else if truthy (caption_of (imageMessage m)) then the (caption_of (imageMessage m))
          else if truthy (caption_of (videoMessage m)) then the (caption_of (videoMessage m))
          else if truthy (caption_of (documentMessage m)) then the (caption_of (documentMessage m))
          else if truthy (text_of (extendedTextMessage m)) then the (text_of (extendedTextMessage m))
          else [])"

text \<open>
  The calls that write to the conversation history: \<open>addToHistory\<close> itself and \<open>chat\<close>,
  which calls it for the user's message and, when the provider succeeds, for the reply.
  \<open>entries_pushed call u\<close> lists the entries a call appends for the user \<open>u\<close>, in order.
\<close>

datatype history_call =
    AddToHistory string string body nat
  | Chat "string \<Rightarrow> string + user_settings" "string option" net nat string string chat_options

fun apply_call :: "chatbot \<Rightarrow> history_call \<Rightarrow> chatbot" where
  "apply_call c (AddToHistory userId r m now) = addToHistory c userId r m now"
| "apply_call c (Chat getUserSettings dflt n now prompt userId opts) =
     fst (chat c getUserSettings dflt n now prompt userId opts)"

fun entries_pushed :: "history_call \<Rightarrow> string \<Rightarrow> history_entry list" where
  "entries_pushed (AddToHistory userId r m now) u =
     (if u = userId then [\<lparr> role = r, entry_message = m, timestamp = now \<rparr>] else [])"
| "entries_pushed (Chat getUserSettings dflt n now prompt userId opts) u =
     (if u = userId then
        (case getUserSettings userId of
           Inl e \<Rightarrow> []
         | Inr userSettings \<Rightarrow>
             (let result = handler_for
                    (first_truthy [opt_provider opts, aiProvider userSettings, dflt]) n prompt
              in \<lparr> role = ''user'', entry_message = Text prompt, timestamp = now \<rparr> #
                 (if r_success result
                  then [\<lparr> role = ''assistant'', entry_message = r_response result, timestamp = now \<rparr>]
                  else [])))
      else [])"

section \<open>Example inputs\<close>

definition no_content :: message_content where
  "no_content = \<lparr> conversation = None, extendedTextMessage = None, imageMessage = None,
     videoMessage = None, audioMessage = None, documentMessage = None, stickerMessage = None,
     viewOnceMessage = None \<rparr>"

definition example_message :: "string \<Rightarrow> string \<Rightarrow> message_content \<Rightarrow> wa_message" where
  "example_message i jid m =
     \<lparr> key = \<lparr> key_id = i, remoteJid = jid, participant = None, fromMe = False \<rparr>,
       pushName = None, messageTimestamp = Some 1700000000, message = Some m \<rparr>"

definition ready_cache :: message_cache where
  "ready_cache = initDatabase (MessageCache_new Map.empty 0) False"

definition hello_in_chat1 :: wa_message where
  "hello_in_chat1 = example_message ''3EB0A1'' ''111@s.whatsapp.net''
     (no_content\<lparr> conversation := Some ''hello'' \<rparr>)"

definition bye_in_chat2 :: wa_message where
  "bye_in_chat2 = example_message ''3EB0A1'' ''222@s.whatsapp.net''
     (no_content\<lparr> conversation := Some ''bye'' \<rparr>)"

definition quoted_with_image :: wa_message where
  "quoted_with_image = example_message ''3EB0B2'' ''111@s.whatsapp.net''
     (no_content\<lparr> extendedTextMessage := Some \<lparr> ext_text = Some ''quoted'' \<rparr>,
                  imageMessage := Some \<lparr> caption = Some ''cap'', title = None, viewOnce = False \<rparr> \<rparr>)"

definition example_config :: config where
  "example_config = \<lparr> PREFIX = ''!'', BOT_NAME = ''Megan'',
     CHANNEL_LINK = ''https://example.org/channel'',
     AI_PROVIDER = Some ''megan-fast'', AUTO_PRESENCE = None \<rparr>"

definition closed_428 :: connection_update where
  "closed_428 = \<lparr> connection = Some ConnClose, statusCode = Some 428 \<rparr>"

definition closed_401 :: connection_update where
  "closed_401 = \<lparr> connection = Some ConnClose, statusCode = Some 401 \<rparr>"

definition eleven_closes :: "event list" where
  "eleven_closes =
     [ConnectionUpdate closed_428, ConnectionUpdate closed_428, ConnectionUpdate closed_428,
      ConnectionUpdate closed_428, ConnectionUpdate closed_428, ConnectionUpdate closed_428,
      ConnectionUpdate closed_428, ConnectionUpdate closed_428, ConnectionUpdate closed_428,
      ConnectionUpdate closed_428, ConnectionUpdate closed_428]"

definition ping_command :: command where
  "ping_command = Command ''ping'' ''No description'' ''!ping'' ''public'' ''Public Commands''
     (\<lambda>ctx. (Inr (Some ''pong''), []))"

definition broken_command :: command where
  "broken_command = Command ''kick'' ''No description'' ''!kick'' ''group'' ''Group Commands''
     (\<lambda>ctx. (Inl (Thrown (Some ''not a group'')), []))"

definition example_handler :: command_handler where
  "example_handler = \<lparr> handler_config = example_config,
     commands = [''ping'' \<mapsto> ping_command, ''kick'' \<mapsto> broken_command] \<rparr>"




definition all_requests_fail :: net where
  "all_requests_fail =
     \<lparr> fast_reply = Threw ''timeout of 10000ms exceeded'',
       base_reply = Threw ''timeout of 15000ms exceeded'',
       ultra_reply = Threw ''timeout of 20000ms exceeded'',
       custom_endpoint = None,
       custom_reply = Threw ''timeout of 10000ms exceeded'',
       rnd_provider = 1, rnd_chat = 2 \<rparr>"

definition default_user_settings :: "string \<Rightarrow> string + user_settings" where
  "default_user_settings userId = Inr \<lparr> aiProvider = None, chatbotEnabled = None \<rparr>"

definition default_group_settings :: "string \<Rightarrow> string + group_settings" where
  "default_group_settings groupId = Inr \<lparr> chatbotInGroups = None \<rparr>"

definition transport_ok :: "string \<Rightarrow> content \<Rightarrow> string + unit" where
  "transport_ok to c = Inr ()"

definition plain_greeting :: content where
  "plain_greeting = \<lparr> content_text = Some ''hi there'', content_footer = None \<rparr>"

definition linked_greeting :: content where
  "linked_greeting =
     \<lparr> content_text = Some ''see https://example.org/channel now'', content_footer = None \<rparr>"

definition twelve_calls :: "history_call list" where
  "twelve_calls =
     map (\<lambda>k. AddToHistory ''111@s.whatsapp.net'' ''user'' (Text ''hi'') k)
       [1, 2, 3, 4, 5, 6, 7, 8, 9, 10, 11, 12]"

lemmas example_defs = example_message_def no_content_def ready_cache_def initDatabase_def
  MessageCache_new_def hello_in_chat1_def bye_in_chat2_def quoted_with_image_def

lemmas cache_defs = addMessage_def getMessage_def make_row_def of_row_def present_def truthy_def

lemmas lifecycle_defs = handle_event_def handleConnectionUpdate_def MeganBot_new_def closed_428_def

lemmas string_defs = trim_def is_whitespace_def toLowerCase_def lower_char_def


section \<open>The message cache\<close>

text \<open>
  C1 (as the specification states it). The specification takes the pair (message id, chat
  id) as the key of a cached message, so that a write replaces only the record of the
  same pair. The table is keyed by the id alone: two messages that carry the same id in
  two different chats are two different pairs, the first is retrievable under its pair
  after it is written, and the write of the second removes it.
\<close>

theorem C1_pair_is_not_the_key:
  "(key_id (key hello_in_chat1), remoteJid (key hello_in_chat1))
      \<noteq> (key_id (key bye_in_chat2), remoteJid (key bye_in_chat2))
   \<and> getMessage (fst (addMessage ready_cache 1 False hello_in_chat1))
        ''3EB0A1'' (Some ''111@s.whatsapp.net'') \<noteq> None
   \<and> getMessage (fst (addMessage (fst (addMessage ready_cache 1 False hello_in_chat1)) 2 False
          bye_in_chat2))
        ''3EB0A1'' (Some ''111@s.whatsapp.net'') = None"
  by (simp add: example_defs cache_defs)

text \<open>
  C1 (amended). The message id is the key. For every two writes that succeed (the cache is
  initialised, both messages carry a payload, the database reports no error) and carry the
  same message id, whatever their chat ids and contents: after the second write the table
  is what it would be had the first never happened, \<open>getMessage\<close> by the id, alone or
  narrowed by the chat id of the second message, returns the record of the second message,
  and each of the two writes, the overwriting one included, adds one to the total-message
  counter.
\<close>

theorem C1_last_write_wins_by_id:
  assumes "initialized c" and "present (message m1)" and "present (message m2)"
    and "key_id (key m2) = key_id (key m1)"
  shows "db (fst (addMessage (fst (addMessage c t1 False m1)) t2 False m2))
           = (db c)(key_id (key m1) \<mapsto> make_row m2 t2)
    \<and> getMessage (fst (addMessage (fst (addMessage c t1 False m1)) t2 False m2))
          (key_id (key m1)) None
           = Some (of_row (make_row m2 t2))
    \<and> getMessage (fst (addMessage (fst (addMessage c t1 False m1)) t2 False m2))
          (key_id (key m1)) (Some (remoteJid (key m2)))
           = Some (of_row (make_row m2 t2))
    \<and> totalMessages (stats (fst (addMessage c t1 False m1))) = totalMessages (stats c) + 1
    \<and> totalMessages (stats (fst (addMessage (fst (addMessage c t1 False m1)) t2 False m2)))
           = totalMessages (stats (fst (addMessage c t1 False m1))) + 1"
  using assms
  by (simp add: addMessage_def getMessage_def Let_def make_row_def of_row_def truthy_def)

text \<open>
  C1 (amended), at a concrete input: \<open>hello\<close> and then \<open>bye\<close> under the id
  \<open>3EB0A1\<close> leave \<open>bye\<close> as the cached text and a counter of 2.
\<close>

theorem C1_last_write_wins_by_id_witness:
  "c_textContent (the (getMessage (fst (addMessage (fst (addMessage ready_cache 1 False
       hello_in_chat1)) 2 False bye_in_chat2)) ''3EB0A1'' None)) = ''bye''
   \<and> totalMessages (stats (fst (addMessage (fst (addMessage ready_cache 1 False
       hello_in_chat1)) 2 False bye_in_chat2))) = 2"
proof -
  have i: "initialized ready_cache" by (simp add: example_defs)
  have p1: "present (message hello_in_chat1)" by (simp add: example_defs present_def)
  have p2: "present (message bye_in_chat2)" by (simp add: example_defs present_def)
  have k: "key_id (key bye_in_chat2) = key_id (key hello_in_chat1)" by (simp add: example_defs)
  have k1: "key_id (key hello_in_chat1) = ''3EB0A1''" by (simp add: example_defs)
  have t: "c_textContent (of_row (make_row bye_in_chat2 2)) = ''bye''"
    by (simp add: example_defs of_row_def make_row_def extractText_def truthy_def)
  have z: "totalMessages (stats ready_cache) = 0" by (simp add: example_defs)
  from C1_last_write_wins_by_id [OF i p1 p2 k, of 1 2] k1 t z show ?thesis by simp
qed

text \<open>
  C5 (as the specification states it). The specification puts the caption of media before
  the extended-text body. For a message that carries both an extended text and an image
  with a caption, the record read back after the write holds the extended text, where the
  order of the specification gives the caption.
\<close>

theorem C5_spec_order_differs:
  "c_textContent (the (getMessage (fst (addMessage ready_cache 1 False quoted_with_image))
       ''3EB0B2'' (Some ''111@s.whatsapp.net''))) = ''quoted''
   \<and> spec_extracted_text quoted_with_image = ''cap''"
  by (simp add: example_defs cache_defs extractText_def spec_extracted_text_def text_of_def
      caption_of_def)

text \<open>
  C5 (amended). For every message with a payload, whatever its shape, a successful
  \<open>addMessage\<close> followed by \<open>getMessage\<close> with the same id and chat id returns a
  record of that id and chat id, whose kind is the first that applies of image, video,
  audio, document, sticker, text (a conversation text or an extended-text part), else
  unknown, and whose extracted text is the first truthy one of the conversation text, the
  extended-text body, the image caption, the video caption and the document caption, in
  that order, else the empty string.
\<close>

theorem C5_read_after_write:
  assumes "initialized c" and "message msg = Some m"
  shows "\<exists>r. getMessage (fst (addMessage c now False msg)) (key_id (key msg))
                (Some (remoteJid (key msg))) = Some r
    \<and> c_id r = key_id (key msg) \<and> c_chatId r = remoteJid (key msg)
    \<and> c_messageType r =
        (if present (imageMessage m) then ''image''
         else if present (videoMessage m) then ''video''
         else if present (audioMessage m) then ''audio''
         else if present (documentMessage m) then ''document''
         else if present (stickerMessage m) then ''sticker''
         else if truthy (conversation m) \<or> present (extendedTextMessage m) then ''text''
         else ''unknown'')
    \<and> c_textContent r =
        (if truthy (conversation m) then the (conversation m)
         else if truthy (text_of (extendedTextMessage m)) then the (text_of (extendedTextMessage m))
         else if truthy (caption_of (imageMessage m)) then the (caption_of (imageMessage m))
         else if truthy (caption_of (videoMessage m)) then the (caption_of (videoMessage m))
         else if truthy (caption_of (documentMessage m)) then the (caption_of (documentMessage m))
         else [])"
  using assms
  by (simp add: addMessage_def getMessage_def Let_def make_row_def of_row_def present_def
      detectMessageType_def extractText_def)

text \<open>
  C5 (amended), at a concrete input: the message with an extended text and a captioned
  image is read back as an image with the extended text.
\<close>

theorem C5_read_after_write_witness:
  "\<exists>r. getMessage (fst (addMessage ready_cache 1 False quoted_with_image)) ''3EB0B2''
          (Some ''111@s.whatsapp.net'') = Some r
     \<and> c_messageType r = ''image'' \<and> c_textContent r = ''quoted''"
proof -
  have i: "initialized ready_cache" by (simp add: example_defs)
  have m: "message quoted_with_image =
      Some (no_content\<lparr> extendedTextMessage := Some \<lparr> ext_text = Some ''quoted'' \<rparr>,
                  imageMessage := Some \<lparr> caption = Some ''cap'', title = None, viewOnce = False \<rparr> \<rparr>)"
    by (simp add: example_defs)
  from C5_read_after_write [OF i m, of 1] show ?thesis
    by (auto simp add: example_defs present_def truthy_def text_of_def caption_of_def)
qed

section \<open>The connection lifecycle\<close>

lemma handle_event_bound:
  "reconnectAttempts b \<le> maxReconnectAttempts b \<Longrightarrow>
   reconnectAttempts (fst (handle_event cfg b e)) \<le> maxReconnectAttempts (fst (handle_event cfg b e))
   \<and> maxReconnectAttempts (fst (handle_event cfg b e)) = maxReconnectAttempts b"
  by (cases e)
     (auto simp: handle_event_def handleConnectionUpdate_def connect_def Let_def
           split: connect_env.splits)

lemma handle_event_delay:
  "SetTimeout Connect d \<in> set (snd (handle_event cfg b e)) \<Longrightarrow>
   1 \<le> reconnectAttempts (fst (handle_event cfg b e))
   \<and> d = min (1000 * 2 ^ reconnectAttempts (fst (handle_event cfg b e))) 30000"
  by (cases e)
     (auto simp: handle_event_def handleConnectionUpdate_def connect_def Let_def
           split: connect_env.splits if_splits)

lemma run_invariant:
  "reconnectAttempts b \<le> maxReconnectAttempts b \<Longrightarrow> (s, fx) \<in> set (run cfg b evs) \<Longrightarrow>
   reconnectAttempts s \<le> maxReconnectAttempts b
   \<and> (\<forall>d. SetTimeout Connect d \<in> set fx \<longrightarrow>
          1 \<le> reconnectAttempts s \<and> d = min (1000 * 2 ^ reconnectAttempts s) 30000)"
proof (induction evs arbitrary: b)
  case Nil
  then show ?case by simp
next
  case (Cons e es)
  let ?r = "handle_event cfg b e"
  have bnd: "reconnectAttempts (fst ?r) \<le> maxReconnectAttempts (fst ?r)"
    and mx: "maxReconnectAttempts (fst ?r) = maxReconnectAttempts b"
    using handle_event_bound [OF Cons.prems(1), where cfg = cfg and e = e] by auto
  from Cons.prems(2) consider "(s, fx) = ?r" | "(s, fx) \<in> set (run cfg (fst ?r) es)"
    by (auto simp: Let_def split: if_splits)
  then show ?case
  proof cases
    case 1
    then have s: "s = fst ?r" and f: "fx = snd ?r" by (metis fst_conv, metis snd_conv)
    show ?thesis
      using bnd mx handle_event_delay [where cfg = cfg and b = b and e = e]
      unfolding s f by auto
  next
    case 2
    from Cons.IH [OF bnd 2] mx show ?thesis by simp
  qed
qed

lemma run_six_closes:
  "map snd (run example_config MeganBot_new
      [ConnectionUpdate closed_428, ConnectionUpdate closed_428, ConnectionUpdate closed_428,
       ConnectionUpdate closed_428, ConnectionUpdate closed_428, ConnectionUpdate closed_428])
   = [[SetTimeout Connect 2000], [SetTimeout Connect 4000], [SetTimeout Connect 8000],
      [SetTimeout Connect 16000], [SetTimeout Connect 30000], [SetTimeout Connect 30000]]"
  by (simp add: lifecycle_defs Let_def)

text \<open>
  C2. Attempts are numbered as the bot numbers them in its log line, by the value of the
  counter after the increment: the first attempt is number 1. In every run of the
  lifecycle from the constructor's state (updates of any kind and reconnect timers firing,
  in any order), after every event the counter is at most 10, and every reconnect that
  an event schedules is attempt number \<open>N\<close> of at least 1, with the delay
  \<open>min (1000 * 2 ^ N) 30000\<close>. For a retryable close (any status but 401) in any state:
  under the maximum the counter goes up by one and exactly one reconnect is scheduled,
  with that delay; at the maximum the counter stays and nothing is scheduled.
\<close>

theorem C2_reconnect_backoff:
  "(\<forall>(s, fx) \<in> set (run cfg MeganBot_new evs).
      reconnectAttempts s \<le> 10 \<and>
      (\<forall>d. SetTimeout Connect d \<in> set fx \<longrightarrow>
         1 \<le> reconnectAttempts s \<and> d = min (1000 * 2 ^ reconnectAttempts s) 30000))
   \<and> (connection u = Some ConnClose \<and> statusCode u \<noteq> Some 401 \<longrightarrow>
        (if reconnectAttempts b < maxReconnectAttempts b
         then reconnectAttempts (fst (handleConnectionUpdate cfg b u)) = reconnectAttempts b + 1
              \<and> snd (handleConnectionUpdate cfg b u) =
                  [SetTimeout Connect (min (1000 * 2 ^ (reconnectAttempts b + 1)) 30000)]
         else reconnectAttempts (fst (handleConnectionUpdate cfg b u)) = reconnectAttempts b
              \<and> snd (handleConnectionUpdate cfg b u) = []))"
proof -
  have init: "reconnectAttempts MeganBot_new \<le> maxReconnectAttempts MeganBot_new"
    and mx: "maxReconnectAttempts MeganBot_new = 10"
    by (simp_all add: MeganBot_new_def)
  have "\<forall>(s, fx) \<in> set (run cfg MeganBot_new evs).
      reconnectAttempts s \<le> 10 \<and>
      (\<forall>d. SetTimeout Connect d \<in> set fx \<longrightarrow>
         1 \<le> reconnectAttempts s \<and> d = min (1000 * 2 ^ reconnectAttempts s) 30000)"
    using run_invariant [OF init, of _ _ cfg evs] mx by auto
  moreover have "connection u = Some ConnClose \<and> statusCode u \<noteq> Some 401 \<longrightarrow>
        (if reconnectAttempts b < maxReconnectAttempts b
         then reconnectAttempts (fst (handleConnectionUpdate cfg b u)) = reconnectAttempts b + 1
              \<and> snd (handleConnectionUpdate cfg b u) =
                  [SetTimeout Connect (min (1000 * 2 ^ (reconnectAttempts b + 1)) 30000)]
         else reconnectAttempts (fst (handleConnectionUpdate cfg b u)) = reconnectAttempts b
              \<and> snd (handleConnectionUpdate cfg b u) = [])"
    by (simp add: handleConnectionUpdate_def Let_def)
  ultimately show ?thesis by blast
qed

text \<open>
  C2, at a concrete input: of two retryable closes in a row from the constructor's state,
  the first schedules a reconnect after 2000 ms and the second, attempt number 2, after
  4000 ms.
\<close>

theorem C2_reconnect_backoff_witness:
  "reconnectAttempts (fst (run example_config MeganBot_new
       [ConnectionUpdate closed_428, ConnectionUpdate closed_428] ! 1)) \<le> 10
   \<and> (SetTimeout Connect 4000 \<in> set (snd (run example_config MeganBot_new
       [ConnectionUpdate closed_428, ConnectionUpdate closed_428] ! 1))
      \<and> (4000::nat) = min (1000 * 2 ^ 2) 30000)
   \<and> snd (handleConnectionUpdate example_config MeganBot_new closed_428)
       = [SetTimeout Connect 2000]"
proof -
  let ?evs = "[ConnectionUpdate closed_428, ConnectionUpdate closed_428]"
  let ?tr = "run example_config MeganBot_new ?evs"
  have tr: "?tr ! 1 = (MeganBot_new\<lparr> reconnectAttempts := 2, stats_reconnects := 2 \<rparr>,
      [SetTimeout Connect 4000])"
    by (simp add: lifecycle_defs Let_def)
  have mem: "?tr ! 1 \<in> set ?tr"
    by (rule nth_mem) (simp add: lifecycle_defs Let_def)
  have hyp: "connection closed_428 = Some ConnClose \<and> statusCode closed_428 \<noteq> Some 401"
    by (simp add: closed_428_def)
  have lt: "reconnectAttempts MeganBot_new < maxReconnectAttempts MeganBot_new"
    by (simp add: MeganBot_new_def)
  from C2_reconnect_backoff [of example_config ?evs closed_428 MeganBot_new] mem hyp lt
  have "reconnectAttempts (fst (?tr ! 1)) \<le> 10"
    and "snd (handleConnectionUpdate example_config MeganBot_new closed_428) =
           [SetTimeout Connect (min (1000 * 2 ^ (reconnectAttempts MeganBot_new + 1)) 30000)]"
    by (auto simp: case_prod_beta)
  then show ?thesis using tr by (simp add: MeganBot_new_def)
qed


text \<open>
  C3. \<open>handleConnectionUpdate\<close> ends the process exactly when the update is a close whose
  status code is 401, and then it asks for nothing else: no reconnect is scheduled. For a
  close with any other status (or none), while the attempt counter is under the maximum,
  it leaves the state disconnected and schedules exactly one call of \<open>connect\<close>, and
  \<open>connect\<close>, whatever it then meets, first puts the state back to connecting.
\<close>

theorem C3_exit_only_when_unauthorized:
  "(list_ex is_exit (snd (handleConnectionUpdate cfg b u))
      = (connection u = Some ConnClose \<and> statusCode u = Some 401))
   \<and> (connection u = Some ConnClose \<and> statusCode u = Some 401 \<longrightarrow>
        snd (handleConnectionUpdate cfg b u) = [ProcessExit 1])
   \<and> (connection u = Some ConnClose \<and> statusCode u \<noteq> Some 401
        \<and> reconnectAttempts b < maxReconnectAttempts b \<longrightarrow>
        snd (handleConnectionUpdate cfg b u) =
          [SetTimeout Connect (min (1000 * 2 ^ (reconnectAttempts b + 1)) 30000)]
        \<and> connectionState (fst (handleConnectionUpdate cfg b u)) = Disconnected
        \<and> connectionState (fst (fst (connect (fst (handleConnectionUpdate cfg b u)) env)))
            = Connecting)"
  by (cases env) (auto simp: handleConnectionUpdate_def connect_def Let_def)

text \<open>
  C3, at concrete inputs: a close with status 401 ends the process; a close with status
  428 in the constructor's state schedules a reconnect, which leads to connecting.
\<close>

theorem C3_exit_only_when_unauthorized_witness:
  "snd (handleConnectionUpdate example_config MeganBot_new closed_401) = [ProcessExit 1]
   \<and> snd (handleConnectionUpdate example_config MeganBot_new closed_428)
       = [SetTimeout Connect 2000]
   \<and> connectionState (fst (fst (connect
         (fst (handleConnectionUpdate example_config MeganBot_new closed_428)) SocketCreated)))
       = Connecting"
proof -
  have a: "connection closed_401 = Some ConnClose \<and> statusCode closed_401 = Some 401"
    by (simp add: closed_401_def)
  have b: "connection closed_428 = Some ConnClose \<and> statusCode closed_428 \<noteq> Some 401
        \<and> reconnectAttempts MeganBot_new < maxReconnectAttempts MeganBot_new"
    by (simp add: closed_428_def MeganBot_new_def)
  from C3_exit_only_when_unauthorized [of example_config MeganBot_new closed_401] a
  have "snd (handleConnectionUpdate example_config MeganBot_new closed_401) = [ProcessExit 1]"
    by blast
  moreover
  from C3_exit_only_when_unauthorized [of example_config MeganBot_new closed_428 SocketCreated] b
  have "snd (handleConnectionUpdate example_config MeganBot_new closed_428) =
          [SetTimeout Connect (min (1000 * 2 ^ (reconnectAttempts MeganBot_new + 1)) 30000)]
        \<and> connectionState (fst (fst (connect
              (fst (handleConnectionUpdate example_config MeganBot_new closed_428)) SocketCreated)))
            = Connecting"
    by blast
  ultimately show ?thesis by (simp add: MeganBot_new_def)
qed

text \<open>
  C4 (as the specification states it). Eleven retryable closes in a row, from the
  constructor's state: the tenth leaves the counter at the maximum of 10, and the
  eleventh, a retryable close with the attempts exhausted, asks for nothing. The process
  is not ended.
\<close>

theorem C4_exhausted_close_is_absorbed:
  "statusCode closed_428 \<noteq> Some 401
   \<and> reconnectAttempts (fst (run example_config MeganBot_new eleven_closes ! 9)) = 10
   \<and> maxReconnectAttempts (fst (run example_config MeganBot_new eleven_closes ! 9)) = 10
   \<and> snd (run example_config MeganBot_new eleven_closes ! 10) = []
   \<and> \<not> list_ex is_exit (snd (run example_config MeganBot_new eleven_closes ! 10))"
  by (simp add: eleven_closes_def lifecycle_defs Let_def)

text \<open>
  C4 (amended). Whenever a retryable close (any status but 401) arrives with the attempt
  counter at or beyond the maximum, the handler marks the bot disconnected and does
  nothing else: no reconnect is scheduled and the process is not ended.
\<close>

theorem C4_exhausted_no_exit_no_retry:
  assumes "connection u = Some ConnClose" and "statusCode u \<noteq> Some 401"
    and "maxReconnectAttempts b \<le> reconnectAttempts b"
  shows "handleConnectionUpdate cfg b u
           = (b\<lparr> connectionState := Disconnected, isConnected := False \<rparr>, [])"
  using assms by (simp add: handleConnectionUpdate_def Let_def)

text \<open>C4 (amended), at a concrete input: the counter at 10 and a close with status 428.\<close>

theorem C4_exhausted_no_exit_no_retry_witness:
  "handleConnectionUpdate example_config (MeganBot_new\<lparr> reconnectAttempts := 10 \<rparr>) closed_428
     = (MeganBot_new\<lparr> reconnectAttempts := 10 \<rparr>, [])"
proof -
  have a: "connection closed_428 = Some ConnClose" and b: "statusCode closed_428 \<noteq> Some 401"
    by (simp_all add: closed_428_def)
  have c: "maxReconnectAttempts (MeganBot_new\<lparr> reconnectAttempts := 10 \<rparr>)
             \<le> reconnectAttempts (MeganBot_new\<lparr> reconnectAttempts := 10 \<rparr>)"
    by (simp add: MeganBot_new_def)
  from C4_exhausted_no_exit_no_retry [OF a b c, of example_config] show ?thesis
    by (simp add: MeganBot_new_def)
qed

section \<open>Command dispatch\<close>

lemma split_spaces_nonempty: "split_spaces s \<noteq> []"
  by (induction s rule: split_spaces.induct) (auto split: list.splits)

lemma commandName_defined: "\<exists>name. commandName cfg txt = Some name"
  using split_spaces_nonempty [of "trim (drop (length (PREFIX cfg)) txt)"]
  by (auto simp: commandName_def split: list.splits)

lemma str_includes_sublist: "str_includes t s = sublist s t"
  by (induction t) (auto simp: sublist_Cons_right)

lemma str_includes_middle: "str_includes (a @ s @ b) s"
  by (simp add: str_includes_sublist sublist_appendI)

lemma str_includes_end: "str_includes (a @ s) s"
  using str_includes_middle [of a s "[]"] by simp

lemma commandName_example: "commandName example_config ''!Kick  @user now'' = Some ''kick''"
  by (simp add: commandName_def example_config_def string_defs)

lemma command_args_example:
  "command_args example_config ''!Kick  @user now'' ''kick'' = [''@user'', ''now'']"
  by (simp add: command_args_def example_config_def string_defs)

lemma command_args_none: "command_args example_config ''!ping'' ''ping'' = [[]]"
  by (simp add: command_args_def example_config_def string_defs)

text \<open>
  C6. For every input text the command name is defined (the array that \<open>split\<close> returns
  is never empty, so no \<open>TypeError\<close> arises), and whenever that name, the lower-cased
  first piece of the text behind the prefix, is not in the registry, \<open>handleCommand\<close>
  returns, without raising, the failure result whose message is the unknown-command
  text; that message contains the configured prefix followed by \<open>menu\<close>.
\<close>

theorem C6_unknown_command_not_found:
  "\<exists>name. commandName (handler_config h) txt = Some name
     \<and> (commands h name = None \<longrightarrow>
          handleCommand h msg txt from_jid sender isGroup =
            Inr (h, \<lparr> cr_success = False,
                      cr_message = cross_mark @ '' Unknown command. Type '' @
                        PREFIX (handler_config h) @ ''menu for available commands.'',
                      cr_command = None \<rparr>)
          \<and> str_includes (cross_mark @ '' Unknown command. Type '' @
                        PREFIX (handler_config h) @ ''menu for available commands.'')
               (PREFIX (handler_config h) @ ''menu''))"
proof -
  obtain name where n: "commandName (handler_config h) txt = Some name"
    using commandName_defined by blast
  have "str_includes ((cross_mark @ '' Unknown command. Type '') @
          (PREFIX (handler_config h) @ ''menu'') @ '' for available commands.'')
          (PREFIX (handler_config h) @ ''menu'')"
    by (rule str_includes_middle)
  then have inc: "str_includes (cross_mark @ '' Unknown command. Type '' @
                        PREFIX (handler_config h) @ ''menu for available commands.'')
               (PREFIX (handler_config h) @ ''menu'')"
    by simp
  show ?thesis using n inc by (auto simp: handleCommand_def)
qed

text \<open>
  C6, at a concrete input: \<open>!Dance now\<close> with the prefix \<open>!\<close> and a registry that
  holds \<open>ping\<close> and \<open>kick\<close>.
\<close>

theorem C6_unknown_command_not_found_witness:
  "handleCommand example_handler hello_in_chat1 ''!Dance now'' ''111@s.whatsapp.net''
       ''111@s.whatsapp.net'' False
     = Inr (example_handler, \<lparr> cr_success = False,
              cr_message = cross_mark @ '' Unknown command. Type !menu for available commands.'',
              cr_command = None \<rparr>)"
proof -
  have n: "commandName (handler_config example_handler) ''!Dance now'' = Some ''dance''"
    by (simp add: commandName_def example_handler_def example_config_def string_defs)
  have u: "commands example_handler ''dance'' = None"
    by (simp add: example_handler_def)
  have p: "PREFIX (handler_config example_handler) = ''!''"
    by (simp add: example_handler_def example_config_def)
  from C6_unknown_command_not_found [of example_handler "''!Dance now''" hello_in_chat1
      "''111@s.whatsapp.net''" "''111@s.whatsapp.net''" False] n u p
  show ?thesis by auto
qed




section \<open>The chatbot\<close>

lemma slice_last_snoc:
  "0 < n \<Longrightarrow> slice_last n (slice_last n xs @ [e]) = slice_last n (xs @ [e])"
proof (cases "length xs \<le> n")
  case True
  then show ?thesis by (simp add: slice_last_def)
next
  case False
  assume "0 < n"
  with False have "Suc (length xs) - (length xs - n + n) + (length xs - n) = Suc (length xs) - n"
    by arith
  with False \<open>0 < n\<close> show ?thesis by (simp add: slice_last_def)
qed

lemma getHistory_addToHistory:
  "0 < maxHistory c \<Longrightarrow>
   getHistory (addToHistory c userId r m now) u =
     (if u = userId
      then slice_last (maxHistory c)
             (getHistory c userId @ [\<lparr> role = r, entry_message = m, timestamp = now \<rparr>])
      else getHistory c u)"
  by (auto simp: addToHistory_def getHistory_def Let_def slice_last_def)

lemma maxHistory_addToHistory [simp]: "maxHistory (addToHistory c userId r m now) = maxHistory c"
  by (simp add: addToHistory_def Let_def)

lemma getUserContext_history [simp]:
  "getHistory (fst (getUserContext c userId now)) u = getHistory c u"
  "maxHistory (fst (getUserContext c userId now)) = maxHistory c"
  by (auto simp: getUserContext_def getHistory_def Let_def split: option.splits)

lemma updateUserContext_history [simp]:
  "getHistory (updateUserContext c userId q resp prov now) u = getHistory c u"
  "maxHistory (updateUserContext c userId q resp prov now) = maxHistory c"
  by (auto simp: updateUserContext_def getUserContext_def getHistory_def Let_def
           split: option.splits)

lemma maxHistory_apply_call [simp]: "maxHistory (apply_call c call) = maxHistory c"
  by (cases call) (auto simp: chat_def Let_def split: sum.splits)

lemma getHistory_apply_call:
  assumes "0 < maxHistory c" and "getHistory c u = slice_last (maxHistory c) lg"
  shows "getHistory (apply_call c call) u = slice_last (maxHistory c) (lg @ entries_pushed call u)"
proof (cases call)
  case (AddToHistory userId r m now)
  show ?thesis
  proof (cases "u = userId")
    case True
    with AddToHistory assms show ?thesis
      by (simp add: getHistory_addToHistory slice_last_snoc)
  next
    case False
    with AddToHistory assms show ?thesis
      by (simp add: getHistory_addToHistory)
  qed
next
  case (Chat gs dflt n now prompt userId opts)
  show ?thesis
  proof (cases "gs userId")
    case (Inl e)
    then show ?thesis using Chat assms by (simp add: chat_def)
  next
    case (Inr us)
    show ?thesis
    proof (cases "u = userId")
      case True
      with Inr Chat assms show ?thesis
        using slice_last_snoc [of "maxHistory c" "lg @ [x]" for x]
        by (simp add: chat_def Let_def getHistory_addToHistory slice_last_snoc)
    next
      case False
      with Inr Chat assms show ?thesis
        by (simp add: chat_def Let_def getHistory_addToHistory)
    qed
  qed
qed

lemma getHistory_calls:
  "getHistory (foldl apply_call Chatbot_new calls) u
     = slice_last 10 (concat (map (\<lambda>call. entries_pushed call u) calls))
   \<and> maxHistory (foldl apply_call Chatbot_new calls) = 10"
proof (induction calls rule: rev_induct)
  case Nil
  then show ?case by (simp add: Chatbot_new_def getHistory_def slice_last_def)
next
  case (snoc call calls)
  then show ?case using getHistory_apply_call [of "foldl apply_call Chatbot_new calls" u _ call]
    by simp
qed

lemma failed_request_no_success:
  assumes "fast_reply n = Threw e1" and "base_reply n = Threw e2" and "ultra_reply n = Threw e3"
    and "custom_reply n = Threw e4"
  shows "\<not> r_success (handler_for p n prompt)"
  using assms
  by (auto simp: handler_for_def providers_def meganFast_def meganBase_def meganUltra_def
      geminiAI_def openAI_def customAI_def split: option.splits)

lemma chat_failure_result:
  assumes "fast_reply n = Threw e1" and "base_reply n = Threw e2" and "ultra_reply n = Threw e3"
    and "custom_reply n = Threw e4"
  shows "\<not> success (snd (chat c gs dflt n now prompt userId opts))
    \<and> response (snd (chat c gs dflt n now prompt userId opts))
        = Text (fallbackResponse (rnd_chat n) prompt)"
  using failed_request_no_success [OF assms]
  by (auto simp: chat_def Let_def split: sum.splits)

lemma handleChatbot_silent_on_failure:
  assumes "fast_reply n = Threw e1" and "base_reply n = Threw e2" and "ultra_reply n = Threw e3"
    and "custom_reply n = Threw e4"
  shows "snd (handleChatbot cfg gs ggs sock cb n now msg txt) = []"
  using chat_failure_result [OF assms]
  by (auto simp: handleChatbot_def Let_def split: sum.splits)

text \<open>
  C8 (what the code does at the failing input). The text \<open>hello\<close>, not a command and
  not from the bot itself, is routed to the chatbot path, with the chatbot enabled by
  default. Every provider request times out. \<open>chat\<close> answers with a failure result
  that carries a fallback text, and \<open>handleChatbot\<close>, which sends only when the result
  says success, hands nothing to the transport: the sender receives no response.
\<close>

theorem C8_failed_provider_leaves_sender_unanswered:
  "message_route example_config hello_in_chat1 = ToChatbot
   \<and> extractMessageText hello_in_chat1 = ''hello''
   \<and> snd (chat Chatbot_new default_user_settings (AI_PROVIDER example_config) all_requests_fail 5
            ''hello'' ''111@s.whatsapp.net''
            \<lparr> opt_provider = None, opt_isGroup = False, opt_groupId = None \<rparr>)
       = \<lparr> success = False,
            response = Text ''Thanks for your message! How can I assist you further?'',
            error = Some ''timeout of 10000ms exceeded'', provider = Some ''fallback'',
            historyLength = None \<rparr>
   \<and> snd (handleChatbot example_config default_user_settings default_group_settings transport_ok
            Chatbot_new all_requests_fail 5 hello_in_chat1 ''hello'') = []"
proof -
  have r: "message_route example_config hello_in_chat1 = ToChatbot
      \<and> extractMessageText hello_in_chat1 = ''hello''"
    by (simp add: message_route_def shouldRespondToChatbot_def extractMessageText_def
        example_defs example_config_def truthy_def Let_def)
  have c: "snd (chat Chatbot_new default_user_settings (AI_PROVIDER example_config)
            all_requests_fail 5 ''hello'' ''111@s.whatsapp.net''
            \<lparr> opt_provider = None, opt_isGroup = False, opt_groupId = None \<rparr>)
       = \<lparr> success = False,
            response = Text ''Thanks for your message! How can I assist you further?'',
            error = Some ''timeout of 10000ms exceeded'', provider = Some ''fallback'',
            historyLength = None \<rparr>"
    by (simp add: chat_def default_user_settings_def example_config_def all_requests_fail_def
        first_truthy_def truthy_def handler_for_def providers_def meganFast_def
        fallbackResponse_def Let_def)
  have h: "snd (handleChatbot example_config default_user_settings default_group_settings
            transport_ok Chatbot_new all_requests_fail 5 hello_in_chat1 ''hello'') = []"
    by (rule handleChatbot_silent_on_failure [of _ "''timeout of 10000ms exceeded''"
          "''timeout of 15000ms exceeded''" "''timeout of 20000ms exceeded''"
          "''timeout of 10000ms exceeded''"])
       (simp_all add: all_requests_fail_def)
  from r c h show ?thesis by simp
qed

text \<open>
  C9. For every sequence of history-writing calls on a new chatbot (\<open>addToHistory\<close> and
  \<open>chat\<close>, for any users, in any order) and every user id, the stored history of that
  user has at most 10 entries, and \<open>getHistory\<close> returns the last 10 (or all, if
  fewer) of the entries appended for that user, in the order they were appended.
\<close>

theorem C9_history_bounded:
  "length (getHistory (foldl apply_call Chatbot_new calls) u) \<le> 10
   \<and> getHistory (foldl apply_call Chatbot_new calls) u
       = slice_last 10 (concat (map (\<lambda>call. entries_pushed call u) calls))"
  using getHistory_calls [of calls u] by (simp add: slice_last_def)

text \<open>
  C9, at a concrete input: of twelve entries appended for one user, those of the times
  3 to 12 are kept, in that order.
\<close>

theorem C9_history_bounded_witness:
  "map timestamp (getHistory (foldl apply_call Chatbot_new twelve_calls) ''111@s.whatsapp.net'')
     = [3, 4, 5, 6, 7, 8, 9, 10, 11, 12]"
  using C9_history_bounded [of twelve_calls "''111@s.whatsapp.net''"]
  by (simp add: twelve_calls_def slice_last_def)

section \<open>Sending\<close>

text \<open>
  C10. The footer block of \<open>sendMessage\<close> is idempotent: applying it to its own result
  changes nothing, so a content sent twice reaches the transport the second time as it
  did the first, with one footer; and a content whose text already contains the channel
  link reaches the transport unchanged.
\<close>

theorem C10_footer_idempotent:
  "add_footer cfg (add_footer cfg c) = add_footer cfg c
   \<and> snd (sendMessage cfg sock to (snd (sendMessage cfg sock to c)))
       = snd (sendMessage cfg sock to c)
   \<and> (content_text c = Some t \<and> str_includes t (CHANNEL_LINK cfg) \<longrightarrow>
        snd (sendMessage cfg sock to c) = c)"
proof -
  have "str_includes (x @ CHANNEL_LINK cfg) (CHANNEL_LINK cfg)" for x
    by (rule str_includes_end)
  from this [of "the (content_text c) @ newline @ newline @ loudspeaker @ '' *'' @
                 BOT_NAME cfg @ ''*'' @ newline"]
  have idem: "add_footer cfg (add_footer cfg c) = add_footer cfg c"
    by (simp add: add_footer_def)
  then show ?thesis by (auto simp: sendMessage_def Let_def add_footer_def)
qed

text \<open>
  C10, at concrete inputs: a text with the link goes out unchanged; a text without it
  gets the footer once, also when the result is sent again.
\<close>

theorem C10_footer_idempotent_witness:
  "snd (sendMessage example_config transport_ok ''111@s.whatsapp.net'' linked_greeting)
       = linked_greeting
   \<and> content_text (snd (sendMessage example_config transport_ok ''111@s.whatsapp.net''
         plain_greeting))
       = Some (''hi there'' @ newline @ newline @ loudspeaker @ '' *Megan*'' @ newline @
               ''https://example.org/channel'')
   \<and> snd (sendMessage example_config transport_ok ''111@s.whatsapp.net''
            (snd (sendMessage example_config transport_ok ''111@s.whatsapp.net'' plain_greeting)))
       = snd (sendMessage example_config transport_ok ''111@s.whatsapp.net'' plain_greeting)"
proof -
  have a: "content_text linked_greeting = Some ''see https://example.org/channel now''
      \<and> str_includes ''see https://example.org/channel now'' (CHANNEL_LINK example_config)"
    by (simp add: linked_greeting_def example_config_def)
  have b: "content_text (snd (sendMessage example_config transport_ok ''111@s.whatsapp.net''
             plain_greeting))
       = Some (''hi there'' @ newline @ newline @ loudspeaker @ '' *Megan*'' @ newline @
               ''https://example.org/channel'')"
    by (simp add: sendMessage_def Let_def add_footer_def plain_greeting_def example_config_def
        truthy_def)
  from C10_footer_idempotent [of example_config linked_greeting transport_ok
      "''111@s.whatsapp.net''" "''see https://example.org/channel now''"] a
  have "snd (sendMessage example_config transport_ok ''111@s.whatsapp.net'' linked_greeting)
          = linked_greeting"
    by blast
  moreover
  from C10_footer_idempotent [of example_config plain_greeting transport_ok
      "''111@s.whatsapp.net''"]
  have "snd (sendMessage example_config transport_ok ''111@s.whatsapp.net''
            (snd (sendMessage example_config transport_ok ''111@s.whatsapp.net'' plain_greeting)))
       = snd (sendMessage example_config transport_ok ''111@s.whatsapp.net'' plain_greeting)"
    by blast
  ultimately show ?thesis using b by simp
qed

end
